theory Spec2Isabelle
  imports Main
begin

section \<open>The IR generator (src/mlir/generator.cc)\<close>

subsection \<open>Types, values and the builder\<close>

text \<open>
  The types of the IR as the generator inspects them: \<open>IntegerType\<close> (a bit width and a
  signedness), \<open>FloatType\<close> (one of the fixed floating formats), the index type, and the
  pointer, struct and array types of the LLVM dialect (\<open>PointerType\<close>, \<open>StructType\<close>,
  \<open>ArrayType\<close> are the aliases declared at the top of generator.cc). Two types are equal
  (\<open>lhsType == rhsType\<close>) exactly when they are the same term. A struct type is given by
  its body, the list of its field types; an opaque struct has the empty body.
\<close>

datatype signedness = Signless | Signed | Unsigned

datatype floatKind = BF16 | F16 | F32 | F64 | F80 | F128

datatype mtype =
    IntegerType nat signedness
  | FloatType floatKind
  | IndexType
  | PointerType mtype
  | StructType "mtype list"
  | ArrayType mtype nat

text \<open>
  Every failing assertion of the source is a value of \<open>error\<close>; a function that can
  assert returns \<open>error + 'a\<close>. The constructors name the assertion:
  \<^item> \<open>IncompatibleTypeCast\<close>: \<open>assert(false && "Type casts between incompatible types")\<close>;
  \<^item> \<open>OffsetOfGEP\<close>: \<open>assert(offset == 0 && "Can't take an offset of a GEP")\<close>;
  \<^item> \<open>InvalidPointerLoad\<close>: \<open>assert(elmTy == ty && "Invalid pointer load")\<close>;
  \<^item> \<open>TypeNotSupported\<close>: \<open>assert(0 && "Type not supported for zero")\<close>;
  \<^item> \<open>NoBitWidth\<close>: \<open>getIntOrFloatBitWidth\<close> on a type that is neither integer nor floating;
  \<^item> \<open>BadVariantAccess\<close>: \<open>std::get\<close> on the alternative the variant does not hold;
  \<^item> \<open>NotAPointer\<close>: the pointee of a type that is not a pointer type is asked for;
  \<^item> \<open>BadFieldIndex\<close>: a struct field outside the struct's body is asked for;
  \<^item> \<open>InvalidKind\<close>: \<open>assert(t.kind != CXXType::Kind::Invalid)\<close>;
  \<^item> \<open>NullDeclaration\<close>: a handle without a declaration is dereferenced;
  \<^item> \<open>InvalidSourceLocation\<close>: \<open>assert(InstantiationLoc.isValid())\<close>;
  \<^item> \<open>NoDefinition\<close>: \<open>cast\<close> of a null definition;
  \<^item> \<open>IsaOnNullPointer\<close>: \<open>isa\<close> of a null pointer (the library asserts
    \<open>"isa<> used on a null pointer"\<close>);
  \<^item> \<open>NullTypePointer\<close>: the type pointer of the null \<open>QualType\<close> is asked for (the
    host compiler asserts \<open>"Cannot retrieve a NULL type pointer"\<close>).
\<close>

datatype error =
    IncompatibleTypeCast
  | OffsetOfGEP
  | InvalidPointerLoad
  | TypeNotSupported
  | NoBitWidth
  | BadVariantAccess
  | NotAPointer
  | BadFieldIndex
  | InvalidKind
  | NullDeclaration
  | InvalidSourceLocation
  | NoDefinition
  | IsaOnNullPointer
  | NullTypePointer

definition bindE :: "error + 'a \<Rightarrow> ('a \<Rightarrow> error + 'b) \<Rightarrow> error + 'b" where
  "bindE r f = (case r of Inl e \<Rightarrow> Inl e | Inr x \<Rightarrow> f x)"

text \<open>
  The operations the generator creates, and the values. A value is either the result
  of the operation that defines it, or a block argument (a function parameter), which
  no operation defines. A result carries the operation's name, its position in the
  builder's block at creation (its identity), its one type, the operands and the constant
  attribute; a block argument carries its number and its one type. Values are immutable
  once created.
\<close>

datatype opName =
    SignExtendIOp | TruncateIOp | FPExtOp | FPTruncOp
  | ConstantIndexOp | ConstantIntOp | ConstantFloatOp
  | AllocaOp | GEPOp | LoadOp | AddressOfOp | CallOp | AddIOp | AddFOp

datatype attr = NoAttr | IntAttr int | FloatAttr

datatype mvalue =
    OpResult opName nat mtype "mvalue list" attr
  | BlockArgument nat mtype

text \<open>
  \<open>Value::getType\<close>, written \<open>getValType\<close>: \<open>getType\<close> is the lookup of the type bridge
  below.
\<close>

fun getValType :: "mvalue \<Rightarrow> mtype" where
  "getValType (OpResult name i ty args a) = ty"
| "getValType (BlockArgument i ty) = ty"

text \<open>
  \<open>Value::getDefiningOp\<close>: the operation that defines the value, null for a block
  argument.
\<close>

fun getDefiningOp :: "mvalue \<Rightarrow> opName option" where
  "getDefiningOp (OpResult name i ty args a) = Some name"
| "getDefiningOp (BlockArgument i ty) = None"

fun getOperands :: "mvalue \<Rightarrow> mvalue list" where
  "getOperands (OpResult name i ty args a) = args"
| "getOperands (BlockArgument i ty) = []"

text \<open>
  \<open>isa<LLVM::GEPOp>\<close> of an operation pointer: whether the operation is an address
  computation. The library asserts that the pointer is not null.
\<close>

fun isaGEPOp :: "opName option \<Rightarrow> error + bool" where
  "isaGEPOp None = Inl IsaOnNullPointer"
| "isaGEPOp (Some name) = Inr (name = GEPOp)"

text \<open>
  The builder appends every created operation at its insertion point; the model keeps
  the operations emitted so far, in order. A store has no result.
\<close>

datatype operation = ResultOp mvalue | StoreOp mvalue mvalue

type_synonym builder = "operation list"

definition create :: "builder \<Rightarrow> opName \<Rightarrow> mtype \<Rightarrow> mvalue list \<Rightarrow> attr \<Rightarrow> mvalue \<times> builder" where
  "create b name ty args a =
     (let v = OpResult name (length b) ty args a in (v, b @ [ResultOp v]))"

fun isIntegerType :: "mtype \<Rightarrow> bool" where
  "isIntegerType (IntegerType w s) = True"
| "isIntegerType t = False"

fun isFloatType :: "mtype \<Rightarrow> bool" where
  "isFloatType (FloatType k) = True"
| "isFloatType t = False"

fun floatWidth :: "floatKind \<Rightarrow> nat" where
  "floatWidth BF16 = 16"
| "floatWidth F16 = 16"
| "floatWidth F32 = 32"
| "floatWidth F64 = 64"
| "floatWidth F80 = 80"
| "floatWidth F128 = 128"

text \<open>
  \<open>Type::getIntOrFloatBitWidth\<close>: the width of an integer or floating type; the library
  asserts that the type is one of the two.
\<close>

fun getIntOrFloatBitWidth :: "mtype \<Rightarrow> error + nat" where
  "getIntOrFloatBitWidth (IntegerType w s) = Inr w"
| "getIntOrFloatBitWidth (FloatType k) = Inr (floatWidth k)"
| "getIntOrFloatBitWidth t = Inl NoBitWidth"

subsection \<open>typeConversion and typePromotion\<close>

text \<open>
  \<open>MLIRGenerator::typeConversion\<close> (generator.cc, lines 22-58). The first test compares
  the two bit widths only and returns the value as it is when they agree; then come the
  integer casts, the floating casts, and the assertion for every other pair.
\<close>

definition typeConversion :: "builder \<Rightarrow> mvalue \<Rightarrow> mtype \<Rightarrow> error + (mvalue \<times> builder)" where
  "typeConversion b val ty =
     (let valTy = getValType val in
      bindE (getIntOrFloatBitWidth valTy) (\<lambda>valSize.
      bindE (getIntOrFloatBitWidth ty) (\<lambda>tySize.
        if valSize = tySize then Inr (val, b)
        else if isIntegerType valTy \<and> isIntegerType ty then
          (if valSize < tySize then Inr (create b SignExtendIOp ty [val] NoAttr)
           else Inr (create b TruncateIOp ty [val] NoAttr))
        else if isFloatType valTy \<and> isFloatType ty then
          (if valSize < tySize then Inr (create b FPExtOp ty [val] NoAttr)
           else Inr (create b FPTruncOp ty [val] NoAttr))
        else Inl IncompatibleTypeCast)))"

text \<open>
  \<open>MLIRGenerator::typePromotion\<close> (generator.cc, lines 60-80): the shortcut for equal
  types, then the operand with the smaller width is converted to the other's type.
\<close>

definition typePromotion ::
  "builder \<Rightarrow> mvalue \<Rightarrow> mvalue \<Rightarrow> error + ((mvalue \<times> mvalue) \<times> builder)" where
  "typePromotion b lhs rhs =
     (let lhsType = getValType lhs; rhsType = getValType rhs in
      if lhsType = rhsType then Inr ((lhs, rhs), b)
      else
        bindE (getIntOrFloatBitWidth lhsType) (\<lambda>lhsSize.
        bindE (getIntOrFloatBitWidth rhsType) (\<lambda>rhsSize.
          if lhsSize < rhsSize then
            bindE (typeConversion b lhs rhsType) (\<lambda>(lhs', b'). Inr ((lhs', rhs), b'))
          else
            bindE (typeConversion b rhs lhsType) (\<lambda>(rhs', b'). Inr ((lhs, rhs'), b')))))"

subsection \<open>Helpers of utils.h\<close>

text \<open>
  generator.cc calls \<open>isPointer\<close>, \<open>getElementType\<close>, \<open>isStructPointer\<close> and
  \<open>getFieldType\<close>; they are declared in utils.h, which is not among the sources.
\<close>

text \<open>
  Modelled from the spec: \<open>isPointer\<close> of utils.h is missing. The spec: "if \<open>addr\<close> is
  not a pointer, return it unchanged (already a value)"; a value carries exactly one
  type, so a pointer is a value whose type is a pointer type.
\<close>

fun isPointer :: "mvalue \<Rightarrow> bool" where
  "isPointer v = (case getValType v of PointerType t \<Rightarrow> True | _ \<Rightarrow> False)"

text \<open>
  Modelled from the spec: \<open>getElementType\<close> of utils.h is missing. The spec: "assert it
  matches the pointee type"; it is the pointee of the value's pointer type. A value
  that is not a pointer has no pointee: that is an error of the model.
\<close>

fun getElementType :: "mvalue \<Rightarrow> error + mtype" where
  "getElementType v = (case getValType v of PointerType t \<Rightarrow> Inr t | _ \<Rightarrow> Inl NotAPointer)"

text \<open>\<open>isa<StructType>\<close> and a successful \<open>dyn_cast<StructType>\<close>.\<close>

fun isStructType :: "mtype \<Rightarrow> bool" where
  "isStructType (StructType body) = True"
| "isStructType t = False"

text \<open>
  Modelled from the spec: \<open>isStructPointer\<close> of utils.h is missing. The spec: "if \<open>addr\<close>
  is a pointer to an aggregate (struct) type".
\<close>

fun isStructPointer :: "mvalue \<Rightarrow> bool" where
  "isStructPointer v =
     (case getValType v of PointerType t \<Rightarrow> isStructType t | _ \<Rightarrow> False)"

text \<open>
  Modelled from the spec: \<open>getFieldType\<close> of utils.h is missing. The spec: "set the
  result type to the field's declared type", with the precondition that "\<open>offset\<close> must
  be a valid field index whenever \<open>addr\<close> points to a struct". The struct type is given
  by its body; a field outside the body has no type: that is an error of the model.
\<close>

fun getFieldType :: "mtype list \<Rightarrow> int \<Rightarrow> error + mtype" where
  "getFieldType body offset =
     (if 0 \<le> offset \<and> offset < int (length body) then Inr (body ! nat offset)
      else Inl BadFieldIndex)"

subsection \<open>Constants\<close>

text \<open>
  \<open>std::variant<int, double>\<close>: the alternative held, with the integer; the floating
  payload is not represented. \<open>std::get\<close> on the other alternative throws.
\<close>

datatype variant = IntAlt int | DoubleAlt

fun getInt :: "variant \<Rightarrow> error + int" where
  "getInt (IntAlt n) = Inr n"
| "getInt DoubleAlt = Inl BadVariantAccess"

fun getDouble :: "variant \<Rightarrow> error + unit" where
  "getDouble DoubleAlt = Inr ()"
| "getDouble (IntAlt n) = Inl BadVariantAccess"

text \<open>\<open>MLIRGenerator::generateConstant\<close> (generator.cc, lines 241-263).\<close>

fun generateConstant :: "builder \<Rightarrow> mtype \<Rightarrow> variant \<Rightarrow> error + (mvalue \<times> builder)" where
  "generateConstant b IndexType val =
     bindE (getInt val) (\<lambda>n. Inr (create b ConstantIndexOp IndexType [] (IntAttr n)))"
| "generateConstant b (IntegerType w s) val =
     bindE (getInt val) (\<lambda>n. Inr (create b ConstantIntOp (IntegerType w s) [] (IntAttr n)))"
| "generateConstant b (FloatType k) val =
     bindE (getDouble val) (\<lambda>u. Inr (create b ConstantFloatOp (FloatType k) [] FloatAttr))"
| "generateConstant b t val = Inl TypeNotSupported"

text \<open>\<open>MLIRGenerator::generateZero\<close> (generator.cc, lines 265-271).\<close>

definition generateZero :: "builder \<Rightarrow> mtype \<Rightarrow> error + (mvalue \<times> builder)" where
  "generateZero b ty =
     (if isFloatType ty then generateConstant b ty DoubleAlt
      else generateConstant b ty (IntAlt 0))"

text \<open>\<open>builder.getI32Type()\<close>: the signless 32-bit integer type.\<close>

definition getI32Type :: mtype where
  "getI32Type = IntegerType 32 Signless"

text \<open>\<open>MLIRGenerator::generateAlloca\<close> (generator.cc, lines 175-181).\<close>

definition generateAlloca :: "builder \<Rightarrow> mtype \<Rightarrow> error + (mvalue \<times> builder)" where
  "generateAlloca b ty =
     bindE (generateConstant b getI32Type (IntAlt 1)) (\<lambda>(len, b1).
       Inr (create b1 AllocaOp (PointerType ty) [len] NoAttr))"

subsection \<open>Address computation, load and store\<close>

text \<open>
  \<open>MLIRGenerator::generateGEP\<close> (generator.cc, lines 183-200). The index list gets a zero
  first when the address is a pointer to a struct, then the offset; the result type is
  the type of the address, replaced by the field's type when the pointee is a struct.
  The operands of the created operation are the address followed by the indices.
\<close>

definition generateGEP :: "builder \<Rightarrow> mvalue \<Rightarrow> int \<Rightarrow> error + (mvalue \<times> builder)" where
  "generateGEP b addr offset =
     bindE (if isStructPointer addr
            then bindE (generateZero b getI32Type) (\<lambda>(zero, b1). Inr ([zero], b1))
            else Inr ([], b)) (\<lambda>(offsetList, b1).
     bindE (generateConstant b1 getI32Type (IntAlt offset)) (\<lambda>(len, b2).
     bindE (getElementType addr) (\<lambda>elemTy.
     bindE (case elemTy of StructType body \<Rightarrow> getFieldType body offset
                         | _ \<Rightarrow> Inr (getValType addr)) (\<lambda>retTy.
       Inr (create b2 GEPOp retTy (addr # offsetList @ [len]) NoAttr)))))"

text \<open>
  The builder of the load operation takes the result type from the address: it is the
  pointee of the address's pointer type, and the cast to the pointer type asserts.
\<close>

definition createLoad :: "builder \<Rightarrow> mvalue \<Rightarrow> error + (mvalue \<times> builder)" where
  "createLoad b addr =
     (case getValType addr of
        PointerType t \<Rightarrow> Inr (create b LoadOp t [addr] NoAttr)
      | _ \<Rightarrow> Inl NotAPointer)"

text \<open>
  \<open>MLIRGenerator::generateLoad\<close> (generator.cc, lines 202-209). The test
  \<open>isa<LLVM::GEPOp>(addr.getDefiningOp())\<close> has no null test before it.
\<close>

definition generateLoad :: "builder \<Rightarrow> mvalue \<Rightarrow> int \<Rightarrow> error + (mvalue \<times> builder)" where
  "generateLoad b addr offset =
     bindE (isaGEPOp (getDefiningOp addr)) (\<lambda>isGEP.
     bindE (if \<not> isGEP then generateGEP b addr offset
            else if offset = 0 then Inr (addr, b)
            else Inl OffsetOfGEP) (\<lambda>(addr', b').
       createLoad b' addr'))"

text \<open>
  \<open>MLIRGenerator::generateAutoLoad\<close> (generator.cc, lines 211-229). The expected type
  may be the null type: it is an option.
\<close>

definition generateAutoLoad ::
  "builder \<Rightarrow> mvalue \<Rightarrow> mtype option \<Rightarrow> int \<Rightarrow> error + (mvalue \<times> builder)" where
  "generateAutoLoad b addr ty offset =
     (if \<not> isPointer addr then Inr (addr, b)
      else if (case ty of Some (PointerType t) \<Rightarrow> True | _ \<Rightarrow> False) then Inr (addr, b)
      else
        bindE (getElementType addr) (\<lambda>elmTy.
          if ty \<noteq> None \<and> ty \<noteq> Some elmTy then Inl InvalidPointerLoad
          else generateLoad b addr offset))"

text \<open>\<open>MLIRGenerator::generateStore\<close> (generator.cc, lines 231-239).\<close>

definition generateStore :: "builder \<Rightarrow> mvalue \<Rightarrow> mvalue \<Rightarrow> int \<Rightarrow> error + builder" where
  "generateStore b addr val offset =
     bindE (isaGEPOp (getDefiningOp addr)) (\<lambda>isGEP.
     bindE (if \<not> isGEP then generateGEP b addr offset
            else if offset = 0 then Inr (addr, b)
            else Inl OffsetOfGEP) (\<lambda>(addr', b').
       Inr (b' @ [StoreOp val addr'])))"

section \<open>The type bridge (src/ffi/CXXInterface.h)\<close>

subsection \<open>Type handles\<close>

text \<open>
  CXXInterface.h reads and writes the fields \<open>kind\<close>, \<open>builtTypeKind\<close> and
  \<open>sizeAndAlign\<close> of a \<open>CXXType\<close>, reads its declaration with \<open>getAs\<close>, and builds it
  with its constructors. \<open>CXXType\<close> is declared in CXXType.h, which is not among the
  sources. A declaration is referred to by its identity, a number.
\<close>

text \<open>
  Modelled from the spec: the kinds of \<open>CXXType\<close> (CXXType.h is missing). The spec: "a
  tagged variant over {Invalid, Builtin(kind), Class, TemplateClass,
  SpecializedTemplateClass, Enum}"; the enumerators are those of the two switches of
  CXXInterface.h.
\<close>

datatype kind = Invalid | TemplateClass | SpecializedTemplateClass | Class | Enum | Builtin

text \<open>
  Modelled from the spec: the builtin kinds of \<open>CXXType\<close> (CXXType.h is missing), the
  enumerators of the switch of \<open>typeForBuiltin\<close>. The enumerators \<open>Char\<close> and \<open>Int\<close> are
  written \<open>Char'\<close> and \<open>Int'\<close>.
\<close>

datatype builtinTypeKinds =
    Float | Double | Bool | SChar | Char' | UChar | Short | UShort
  | Int' | UInt | Long | ULong | LongLong | ULongLong

text \<open>The layout of a type as the host compiler gives it: width and alignment in bits.\<close>

record typeInfo =
  Width :: nat
  Align :: nat

text \<open>
  Modelled from the spec: the fields of \<open>CXXType\<close> (CXXType.h is missing). The spec:
  the handle "wraps an opaque reference into AST storage" and "carries a lazily computed
  (width, alignment) pair, initially unset"; "builtin kinds carry no AST reference".
\<close>

record cxxtype =
  kind :: kind
  builtTypeKind :: "builtinTypeKinds option"
  decl :: "nat option"
  sizeAndAlign :: typeInfo

text \<open>
  Modelled from the spec: the default constructor of \<open>CXXType\<close> (CXXType.h is missing).
  The spec: "Returns Invalid if none match", where the source returns \<open>CXXType()\<close>.
\<close>

definition CXXType_default :: cxxtype where
  "CXXType_default =
     \<lparr>kind = Invalid, builtTypeKind = None, decl = None,
      sizeAndAlign = \<lparr>Width = 0, Align = 0\<rparr>\<rparr>"

text \<open>
  Modelled from the spec: the constructors of \<open>CXXType\<close> from a declaration (CXXType.h
  is missing). The handle wraps the declaration under the kind of that declaration,
  with the size unset.
\<close>

definition CXXType_decl :: "kind \<Rightarrow> nat \<Rightarrow> cxxtype" where
  "CXXType_decl k d =
     \<lparr>kind = k, builtTypeKind = None, decl = Some d,
      sizeAndAlign = \<lparr>Width = 0, Align = 0\<rparr>\<rparr>"

text \<open>The qualified types of the host compiler that the bridge builds.\<close>

datatype qualType =
    NullQualType
  | RecordType nat
  | EnumType nat
  | FloatTy | DoubleTy | BoolTy | SignedCharTy | CharTy | UnsignedCharTy
  | ShortTy | UnsignedShortTy | IntTy | UnsignedIntTy | LongTy | UnsignedLongTy
  | LongLongTy | UnsignedLongLongTy | VoidTy

text \<open>\<open>CXXInterface::typeForBuiltin\<close> (CXXInterface.h, lines 209-245).\<close>

fun typeForBuiltin :: "builtinTypeKinds \<Rightarrow> qualType" where
  "typeForBuiltin Float = FloatTy"
| "typeForBuiltin Double = DoubleTy"
| "typeForBuiltin Bool = BoolTy"
| "typeForBuiltin SChar = SignedCharTy"
| "typeForBuiltin Char' = CharTy"
| "typeForBuiltin UChar = UnsignedCharTy"
| "typeForBuiltin Short = ShortTy"
| "typeForBuiltin UShort = UnsignedShortTy"
| "typeForBuiltin Int' = IntTy"
| "typeForBuiltin UInt = UnsignedIntTy"
| "typeForBuiltin Long = LongTy"
| "typeForBuiltin ULong = UnsignedLongTy"
| "typeForBuiltin LongLong = LongLongTy"
| "typeForBuiltin ULongLong = UnsignedLongLongTy"

text \<open>
  \<open>CXXInterface::getQualType\<close> (CXXInterface.h, lines 382-401). Invalid and
  TemplateClass share one branch, which returns the null type. A handle of a class or
  an enum without a declaration cannot be dereferenced; a builtin handle whose builtin
  kind is not one of the enumerators leaves the switch and gets \<open>VoidTy\<close>.
\<close>

definition getQualType :: "cxxtype \<Rightarrow> error + qualType" where
  "getQualType ty =
     (case kind ty of
        Invalid \<Rightarrow> Inr NullQualType
      | TemplateClass \<Rightarrow> Inr NullQualType
      | SpecializedTemplateClass \<Rightarrow>
          (case decl ty of Some d \<Rightarrow> Inr (RecordType d) | None \<Rightarrow> Inl NullDeclaration)
      | Class \<Rightarrow>
          (case decl ty of Some d \<Rightarrow> Inr (RecordType d) | None \<Rightarrow> Inl NullDeclaration)
      | Enum \<Rightarrow>
          (case decl ty of Some d \<Rightarrow> Inr (EnumType d) | None \<Rightarrow> Inl NullDeclaration)
      | Builtin \<Rightarrow>
          (case builtTypeKind ty of Some k \<Rightarrow> Inr (typeForBuiltin k) | None \<Rightarrow> Inr VoidTy))"

text \<open>
  \<open>ASTContext::getTypeInfo\<close>, the layout facility of the host compiler. It reads the
  type through its type pointer, and the host compiler asserts that a \<open>QualType\<close> whose
  type pointer is read is not null; for every other type it answers with the layout of
  the platform, which is a parameter.
\<close>

fun getTypeInfo :: "(qualType \<Rightarrow> typeInfo) \<Rightarrow> qualType \<Rightarrow> error + typeInfo" where
  "getTypeInfo layout NullQualType = Inl NullTypePointer"
| "getTypeInfo layout ty = Inr (layout ty)"

text \<open>
  \<open>CXXInterface::getTypeSize\<close> (CXXInterface.h, lines 369-378). The handle is passed by
  reference and its cached size is written, so the handle is returned with the size.
\<close>

definition getTypeSize ::
  "(qualType \<Rightarrow> typeInfo) \<Rightarrow> cxxtype \<Rightarrow> error + (nat \<times> cxxtype)" where
  "getTypeSize layout t =
     (if kind t = Invalid then Inl InvalidKind
      else
        bindE (if Width (sizeAndAlign t) = 0
               then bindE (getQualType t) (\<lambda>ty.
                    bindE (getTypeInfo layout ty) (\<lambda>info. Inr (t\<lparr>sizeAndAlign := info\<rparr>)))
               else Inr t) (\<lambda>t'.
          Inr (Width (sizeAndAlign t') div 8, t')))"

subsection \<open>Looking a type up by name\<close>

text \<open>
  The declarations of the AST that the three matchers can see, in the order the
  traversal visits them. Each has its identity and its qualified name (written without
  the leading \<open>::\<close>); a record declaration also has \<open>getDefinition()\<close>, the identity of the
  declaration that defines the class, if there is one.
\<close>

datatype decl =
    CXXRecordDecl nat string "nat option"
  | ClassTemplateDecl nat string
  | EnumDecl nat string
  | OtherDecl nat string

text \<open>
  \<open>hasName\<close> with a pattern that starts with \<open>::\<close> matches the fully qualified name.
\<close>

definition hasName :: "string \<Rightarrow> string \<Rightarrow> bool" where
  "hasName pattern qualifiedName = (pattern = ''::'' @ qualifiedName)"

record found =
  foundEnum :: "nat option"
  foundClass :: "nat option"
  foundTemplateClass :: "nat option"

text \<open>
  The three handlers of \<open>getType\<close> (CXXInterface.h, lines 320-347), run on one
  declaration: a record declaration is kept only when it has a definition, and it is
  the definition that is kept; a later match overwrites an earlier one.
\<close>

fun runMatchers :: "string \<Rightarrow> decl \<Rightarrow> found \<Rightarrow> found" where
  "runMatchers name (CXXRecordDecl i qn def) f =
     (if hasName name qn
      then (case def of Some d \<Rightarrow> f\<lparr>foundClass := Some d\<rparr> | None \<Rightarrow> f)
      else f)"
| "runMatchers name (ClassTemplateDecl i qn) f =
     (if hasName name qn then f\<lparr>foundTemplateClass := Some i\<rparr> else f)"
| "runMatchers name (EnumDecl i qn) f =
     (if hasName name qn then f\<lparr>foundEnum := Some i\<rparr> else f)"
| "runMatchers name (OtherDecl i qn) f = f"

definition matchAST :: "string \<Rightarrow> decl list \<Rightarrow> found" where
  "matchAST name ast =
     fold (runMatchers name) ast
       \<lparr>foundEnum = None, foundClass = None, foundTemplateClass = None\<rparr>"

text \<open>\<open>CXXInterface::getType\<close> (CXXInterface.h, lines 312-366).\<close>

definition getType :: "decl list \<Rightarrow> string \<Rightarrow> cxxtype" where
  "getType ast name =
     (let f = matchAST (''::'' @ name) ast in
      case foundTemplateClass f of
        Some d \<Rightarrow> CXXType_decl TemplateClass d
      | None \<Rightarrow>
          (case foundClass f of
             Some d \<Rightarrow> CXXType_decl Class d
           | None \<Rightarrow>
               (case foundEnum f of
                  Some d \<Rightarrow> CXXType_decl Enum d
                | None \<Rightarrow> CXXType_default)))"

text \<open>
  The categories of the lookup, as sets of declarations: whether a class template, a
  class with a definition, or an enum of that name is declared anywhere in the AST.
\<close>

fun isTemplateNamed :: "string \<Rightarrow> decl \<Rightarrow> bool" where
  "isTemplateNamed name (ClassTemplateDecl i qn) = (qn = name)"
| "isTemplateNamed name d = False"

fun isDefinedClassNamed :: "string \<Rightarrow> decl \<Rightarrow> bool" where
  "isDefinedClassNamed name (CXXRecordDecl i qn def) = (qn = name \<and> def \<noteq> None)"
| "isDefinedClassNamed name d = False"

fun isEnumNamed :: "string \<Rightarrow> decl \<Rightarrow> bool" where
  "isEnumNamed name (EnumDecl i qn) = (qn = name)"
| "isEnumNamed name d = False"

definition expectedKind :: "decl list \<Rightarrow> string \<Rightarrow> kind" where
  "expectedKind ast name =
     (if list_ex (isTemplateNamed name) ast then TemplateClass
      else if list_ex (isDefinedClassNamed name) ast then Class
      else if list_ex (isEnumNamed name) ast then Enum
      else Invalid)"

subsection \<open>Instantiating a class template\<close>

text \<open>
  The template arguments of the host compiler, in canonical form: a type, or an integer
  literal of a builtin type for a non-type parameter, or the null argument.
\<close>

datatype templateArgument =
    NullArgument
  | TypeArgument qualType
  | IntegralArgument builtinTypeKinds nat

datatype templateSpecializationKind =
    TSK_Undeclared
  | TSK_ImplicitInstantiation
  | TSK_ExplicitSpecialization
  | TSK_ExplicitInstantiationDeclaration
  | TSK_ExplicitInstantiationDefinition

text \<open>
  The part of the host session that \<open>instantiateClassTemplate\<close> works on. The
  specialization declarations live in the AST arena, which only grows: the identity of a
  declaration is its position. Each records its template, its argument list (the key of
  the specialization set), its specialization kind, the declaration that defines it,
  if any, and whether the attributes of the pattern were instantiated for it. Whether
  the host compiler can instantiate a definition for a template and an argument list
  (the template has a definition, the arguments fit its parameters) is its own decision,
  a field of the session; so is the validity of the end-of-file location.
\<close>

record specDecl =
  specTemplate :: nat
  specArgs :: "templateArgument list"
  specKind :: templateSpecializationKind
  specDefinition :: "nat option"
  specAttrs :: bool

record session =
  specializations :: "specDecl list"
  instantiable :: "nat \<Rightarrow> templateArgument list \<Rightarrow> bool"
  endOfFileValid :: bool

text \<open>
  \<open>ClassTemplateDecl::findSpecialization\<close>: the declaration of the template's
  specialization set with that argument list, or null.
\<close>

fun findFrom :: "nat \<Rightarrow> specDecl list \<Rightarrow> nat \<Rightarrow> templateArgument list \<Rightarrow> nat option" where
  "findFrom i [] t args = None"
| "findFrom i (d # ds) t args =
     (if specTemplate d = t \<and> specArgs d = args then Some i
      else findFrom (Suc i) ds t args)"

definition findSpecialization :: "session \<Rightarrow> nat \<Rightarrow> templateArgument list \<Rightarrow> nat option" where
  "findSpecialization s t args = findFrom 0 (specializations s) t args"

text \<open>
  \<open>ClassTemplateSpecializationDecl::Create\<close> followed by \<open>AddSpecialization\<close>: a new
  declaration, undeclared and undefined, at the end of the arena and in the set.
\<close>

definition AddSpecialization :: "session \<Rightarrow> nat \<Rightarrow> templateArgument list \<Rightarrow> nat \<times> session" where
  "AddSpecialization s t args =
     (length (specializations s),
      s\<lparr>specializations := specializations s @
          [\<lparr>specTemplate = t, specArgs = args, specKind = TSK_Undeclared,
            specDefinition = None, specAttrs = False\<rparr>]\<rparr>)"

definition InstantiateAttrsForDecl :: "session \<Rightarrow> nat \<Rightarrow> session" where
  "InstantiateAttrsForDecl s d =
     s\<lparr>specializations :=
         (specializations s)[d := (specializations s ! d)\<lparr>specAttrs := True\<rparr>]\<rparr>"

text \<open>
  \<open>Sema::InstantiateClassTemplateSpecialization\<close>: when the host compiler can
  instantiate, the declaration becomes its own definition with the given kind; when it
  cannot, the declaration stays undefined (the source ignores the returned flag).
\<close>

definition InstantiateClassTemplateSpecialization ::
  "session \<Rightarrow> nat \<Rightarrow> templateSpecializationKind \<Rightarrow> session" where
  "InstantiateClassTemplateSpecialization s d tsk =
     (let sd = specializations s ! d in
      if instantiable s (specTemplate sd) (specArgs sd)
      then s\<lparr>specializations :=
               (specializations s)[d := sd\<lparr>specKind := tsk, specDefinition := Some d\<rparr>]\<rparr>
      else s)"

text \<open>
  \<open>CXXInterface::instantiateClassTemplate\<close> (CXXInterface.h, lines 441-496).
\<close>

definition instantiateClassTemplate ::
  "session \<Rightarrow> cxxtype \<Rightarrow> templateArgument list \<Rightarrow> error + (cxxtype \<times> session)" where
  "instantiateClassTemplate s classTemplate args =
     (if kind classTemplate \<noteq> TemplateClass then Inr (CXXType_default, s)
      else
        case decl classTemplate of
          None \<Rightarrow> Inl NullDeclaration
        | Some ClassTemplate \<Rightarrow>
            (let (Decl, s1) =
                   (case findSpecialization s ClassTemplate args of
                      Some d \<Rightarrow> (d, s)
                    | None \<Rightarrow> AddSpecialization s ClassTemplate args);
                 s2 = (if specKind (specializations s1 ! Decl) = TSK_Undeclared
                       then InstantiateAttrsForDecl s1 Decl else s1)
             in case specDefinition (specializations s2 ! Decl) of
                  Some Def \<Rightarrow> Inr (CXXType_decl SpecializedTemplateClass Def, s2)
                | None \<Rightarrow>
                    if \<not> endOfFileValid s2 then Inl InvalidSourceLocation
                    else
                      (let s3 = InstantiateClassTemplateSpecialization s2 Decl
                                  TSK_ExplicitInstantiationDefinition
                       in case specDefinition (specializations s3 ! Decl) of
                            Some Def \<Rightarrow> Inr (CXXType_decl SpecializedTemplateClass Def, s3)
                          | None \<Rightarrow> Inl NoDefinition)))"

subsection \<open>Building a function parameter\<close>

text \<open>
  A parameter declaration and a function declaration of the AST. The function is passed
  by pointer and modified, so the model returns it; the next free identity of the AST
  arena is passed along.
\<close>

record parmVarDecl =
  parmId :: nat
  parmName :: string
  parmType :: qualType
  parmFunction :: nat

record functionDecl =
  funcId :: nat
  funcName :: string
  funcArgTypes :: "qualType list"
  funcReturnType :: qualType
  params :: "parmVarDecl list"

text \<open>\<open>FunctionDecl::setParams\<close>: the parameter list of the function is set to the list given.\<close>

definition setParams :: "functionDecl \<Rightarrow> parmVarDecl list \<Rightarrow> functionDecl" where
  "setParams func ps = func\<lparr>params := ps\<rparr>"

text \<open>
  \<open>CXXInterface::createFunctionArgument\<close> (CXXInterface.h, lines 550-567): the
  parameter is created for the function and \<open>setParams\<close> is called with the list that
  holds this one parameter.
\<close>

definition createFunctionArgument ::
  "nat \<Rightarrow> string \<Rightarrow> cxxtype \<Rightarrow> functionDecl \<Rightarrow> error + (parmVarDecl \<times> functionDecl \<times> nat)" where
  "createFunctionArgument nextId name ty func =
     bindE (getQualType ty) (\<lambda>qt.
       let arg = \<lparr>parmId = nextId, parmName = name, parmType = qt,
                  parmFunction = funcId func\<rparr>
       in Inr (arg, setParams func [arg], Suc nextId))"

section \<open>Predicates used to state the properties\<close>

text \<open>A type that is an integer type or a floating type.\<close>

definition isIntOrFloat :: "mtype \<Rightarrow> bool" where
  "isIntOrFloat t = (isIntegerType t \<or> isFloatType t)"

text \<open>Two types that are both integer types, or both floating types.\<close>

definition sameDomain :: "mtype \<Rightarrow> mtype \<Rightarrow> bool" where
  "sameDomain t u =
     ((isIntegerType t \<and> isIntegerType u) \<or> (isFloatType t \<and> isFloatType u))"

text \<open>The bit width of an integer or floating type, as a number.\<close>

definition bitWidth :: "mtype \<Rightarrow> nat" where
  "bitWidth t = (case getIntOrFloatBitWidth t of Inr w \<Rightarrow> w | Inl e \<Rightarrow> 0)"

section \<open>Example values\<close>

text \<open>
  Values on which the properties below are instantiated: the signless 32-bit and 64-bit
  integer types and the 32-bit and 64-bit floating types; integer constants and a
  floating constant; a pointer to a 32-bit integer and a pointer to a struct of two of
  them, each obtained from an allocation; the address computed from the first pointer
  with offset zero; a function parameter that is a pointer to a 32-bit integer; a
  session of the host compiler that has no specialization yet and
  can instantiate every template, and the same session after the template 7 was
  instantiated with the builtin type \<open>int\<close>; a header that declares a class template
  \<open>Foo\<close> (the template and its templated class) and an enum \<open>Color\<close>, in two orders.
\<close>

abbreviation i32 :: mtype where
  "i32 \<equiv> IntegerType 32 Signless"

abbreviation i64 :: mtype where
  "i64 \<equiv> IntegerType 64 Signless"

abbreviation f32 :: mtype where
  "f32 \<equiv> FloatType F32"

abbreviation f64 :: mtype where
  "f64 \<equiv> FloatType F64"

abbreviation exampleConst :: "nat \<Rightarrow> int \<Rightarrow> mvalue" where
  "exampleConst i n \<equiv> OpResult ConstantIntOp i i32 [] (IntAttr n)"

abbreviation exampleInt :: mvalue where
  "exampleInt \<equiv> exampleConst 0 7"

abbreviation exampleInt64 :: mvalue where
  "exampleInt64 \<equiv> OpResult ConstantIntOp 1 i64 [] (IntAttr 2)"

abbreviation exampleDouble :: mvalue where
  "exampleDouble \<equiv> OpResult ConstantFloatOp 1 f64 [] FloatAttr"

abbreviation exampleIntPointer :: mvalue where
  "exampleIntPointer \<equiv> OpResult AllocaOp 0 (PointerType i32) [] NoAttr"

abbreviation exampleStructPointer :: mvalue where
  "exampleStructPointer \<equiv> OpResult AllocaOp 0 (PointerType (StructType [i32, i32])) [] NoAttr"

abbreviation exampleGEP :: mvalue where
  "exampleGEP \<equiv> OpResult GEPOp 2 (PointerType i32) [exampleIntPointer, exampleConst 1 0] NoAttr"

abbreviation exampleArgument :: mvalue where
  "exampleArgument \<equiv> BlockArgument 0 (PointerType i32)"

abbreviation exampleSession :: session where
  "exampleSession \<equiv>
     \<lparr>specializations = [], instantiable = (\<lambda>t args. True), endOfFileValid = True\<rparr>"

abbreviation exampleSessionAfter :: session where
  "exampleSessionAfter \<equiv>
     \<lparr>specializations =
        [\<lparr>specTemplate = 7, specArgs = [TypeArgument IntTy],
          specKind = TSK_ExplicitInstantiationDefinition,
          specDefinition = Some 0, specAttrs = True\<rparr>],
      instantiable = (\<lambda>t args. True), endOfFileValid = True\<rparr>"

abbreviation exampleAST :: "decl list" where
  "exampleAST \<equiv>
     [ClassTemplateDecl 0 ''Foo'', CXXRecordDecl 1 ''Foo'' (Some 1), EnumDecl 2 ''Color'']"

abbreviation exampleASTReversed :: "decl list" where
  "exampleASTReversed \<equiv>
     [EnumDecl 2 ''Color'', CXXRecordDecl 1 ''Foo'' (Some 1), ClassTemplateDecl 0 ''Foo'']"

abbreviation exampleIntHandle :: cxxtype where
  "exampleIntHandle \<equiv>
     \<lparr>kind = Builtin, builtTypeKind = Some Int', decl = None,
      sizeAndAlign = \<lparr>Width = 0, Align = 0\<rparr>\<rparr>"

section \<open>Properties of the IR generator\<close>

subsection \<open>typeConversion and typePromotion\<close>

lemma width_of_int_or_float:
  "isIntOrFloat t \<Longrightarrow> \<exists>w. getIntOrFloatBitWidth t = Inr w"
  by (cases t) (auto simp: isIntOrFloat_def)

lemma typeConversion_widen:
  assumes "getIntOrFloatBitWidth (getValType v) = Inr vw"
    and "getIntOrFloatBitWidth ty = Inr tw"
    and "vw < tw"
    and "sameDomain (getValType v) ty"
  shows "typeConversion b v ty =
     Inr (create b (if isIntegerType ty then SignExtendIOp else FPExtOp) ty [v] NoAttr)"
  using assms
  by (cases ty; cases "getValType v") (auto simp: typeConversion_def bindE_def sameDomain_def)

lemma typeConversion_mixed:
  assumes "getIntOrFloatBitWidth (getValType v) = Inr vw"
    and "getIntOrFloatBitWidth ty = Inr tw"
    and "vw \<noteq> tw"
    and "\<not> sameDomain (getValType v) ty"
  shows "typeConversion b v ty = Inl IncompatibleTypeCast"
  using assms
  by (cases ty; cases "getValType v") (auto simp: typeConversion_def bindE_def sameDomain_def)

text \<open>
  Claim C1, as stated, fails: promoting a 32-bit integer value and a 64-bit floating
  value does not return a pair; the conversion of the narrower operand reaches the
  assertion for incompatible types.
\<close>

theorem typePromotion_int_float_asserts:
  "typePromotion [ResultOp exampleInt, ResultOp exampleDouble] exampleInt exampleDouble
     = Inl IncompatibleTypeCast"
  by (simp add: typePromotion_def typeConversion_def bindE_def)

text \<open>
  Claim C1, amended. For values \<open>lhs\<close> and \<open>rhs\<close> whose types are integer or floating:
  if they share a type, \<open>typePromotion\<close> returns the pair unchanged and the builder has
  no new operation; if their bit widths differ and both are integer types or both are
  floating types, it returns a pair whose two values have the same type, the narrower
  operand replaced by the result of one extension operation on it (sign extension for
  integers, floating extension for floats), the only operation appended; if their bit
  widths differ and one is an integer type and the other a floating type, it fails the
  assertion for incompatible types. (Nothing is said of two different types of the same
  bit width.)
\<close>

theorem typePromotion_shared_type:
  assumes "isIntOrFloat (getValType lhs)" and "isIntOrFloat (getValType rhs)"
  shows "(getValType lhs = getValType rhs \<longrightarrow>
            typePromotion b lhs rhs = Inr ((lhs, rhs), b))
    \<and> (getIntOrFloatBitWidth (getValType lhs) \<noteq> getIntOrFloatBitWidth (getValType rhs)
         \<and> sameDomain (getValType lhs) (getValType rhs) \<longrightarrow>
        (\<exists>l r c. typePromotion b lhs rhs = Inr ((l, r), b @ [ResultOp c])
            \<and> getValType l = getValType r
            \<and> (if bitWidth (getValType lhs) < bitWidth (getValType rhs)
                then l = c \<and> r = rhs \<and> getOperands c = [lhs]
                else l = lhs \<and> r = c \<and> getOperands c = [rhs])
            \<and> getDefiningOp c =
                Some (if isIntegerType (getValType lhs) then SignExtendIOp else FPExtOp)))
    \<and> (getIntOrFloatBitWidth (getValType lhs) \<noteq> getIntOrFloatBitWidth (getValType rhs)
         \<and> \<not> sameDomain (getValType lhs) (getValType rhs) \<longrightarrow>
        typePromotion b lhs rhs = Inl IncompatibleTypeCast)"
proof -
  obtain lw where lw: "getIntOrFloatBitWidth (getValType lhs) = Inr lw"
    using width_of_int_or_float [OF assms(1)] by blast
  obtain rw where rw: "getIntOrFloatBitWidth (getValType rhs) = Inr rw"
    using width_of_int_or_float [OF assms(2)] by blast
  have same: "getValType lhs = getValType rhs \<Longrightarrow> typePromotion b lhs rhs = Inr ((lhs, rhs), b)"
    by (simp add: typePromotion_def)
  have neq: "getValType lhs \<noteq> getValType rhs" if "lw \<noteq> rw"
    using that lw rw by auto
  have dom_sym: "sameDomain (getValType rhs) (getValType lhs) =
      sameDomain (getValType lhs) (getValType rhs)"
    by (auto simp: sameDomain_def)
  have int_sym: "sameDomain (getValType lhs) (getValType rhs) \<Longrightarrow>
       isIntegerType (getValType rhs) = isIntegerType (getValType lhs)"
    by (cases "getValType lhs"; cases "getValType rhs") (auto simp: sameDomain_def)
  have widen: "\<exists>l r c. typePromotion b lhs rhs = Inr ((l, r), b @ [ResultOp c])
            \<and> getValType l = getValType r
            \<and> (if bitWidth (getValType lhs) < bitWidth (getValType rhs)
                then l = c \<and> r = rhs \<and> getOperands c = [lhs]
                else l = lhs \<and> r = c \<and> getOperands c = [rhs])
            \<and> getDefiningOp c =
                Some (if isIntegerType (getValType lhs) then SignExtendIOp else FPExtOp)"
    if d: "lw \<noteq> rw" and sd: "sameDomain (getValType lhs) (getValType rhs)"
  proof (cases "lw < rw")
    case True
    have "typeConversion b lhs (getValType rhs) =
        Inr (create b (if isIntegerType (getValType rhs) then SignExtendIOp else FPExtOp)
               (getValType rhs) [lhs] NoAttr)"
      by (rule typeConversion_widen [OF lw rw True sd])
    then show ?thesis
      using True neq [OF d] lw rw int_sym [OF sd]
      by (simp add: typePromotion_def bindE_def create_def Let_def bitWidth_def)
  next
    case False
    then have lt: "rw < lw" using d by simp
    have "typeConversion b rhs (getValType lhs) =
        Inr (create b (if isIntegerType (getValType lhs) then SignExtendIOp else FPExtOp)
               (getValType lhs) [rhs] NoAttr)"
      by (rule typeConversion_widen [OF rw lw lt]) (simp add: dom_sym sd)
    then show ?thesis
      using False neq [OF d] lw rw
      by (simp add: typePromotion_def bindE_def create_def Let_def bitWidth_def)
  qed
  have mixed: "typePromotion b lhs rhs = Inl IncompatibleTypeCast"
    if d: "lw \<noteq> rw" and sd: "\<not> sameDomain (getValType lhs) (getValType rhs)"
  proof (cases "lw < rw")
    case True
    have "typeConversion b lhs (getValType rhs) = Inl IncompatibleTypeCast"
      by (rule typeConversion_mixed [OF lw rw d sd])
    then show ?thesis
      using True neq [OF d] lw rw by (simp add: typePromotion_def bindE_def)
  next
    case False
    have "typeConversion b rhs (getValType lhs) = Inl IncompatibleTypeCast"
      by (rule typeConversion_mixed [OF rw lw]) (use d sd dom_sym in auto)
    then show ?thesis
      using False neq [OF d] lw rw by (simp add: typePromotion_def bindE_def)
  qed
  show ?thesis using same widen mixed lw rw by auto
qed

text \<open>
  The amended claim C1 at three pairs: two 32-bit integers, a 32-bit and a 64-bit
  integer (scenario C of the spec), and a 32-bit integer with a 64-bit float.
\<close>

theorem typePromotion_shared_type_witness:
  "(isIntOrFloat i32
     \<and> typePromotion [ResultOp exampleInt, ResultOp (exampleConst 1 2)]
           exampleInt (exampleConst 1 2)
         = Inr ((exampleInt, exampleConst 1 2),
                [ResultOp exampleInt, ResultOp (exampleConst 1 2)]))
   \<and> (isIntOrFloat i64 \<and> sameDomain i32 i64
     \<and> (\<exists>l r c. typePromotion [ResultOp exampleInt, ResultOp exampleInt64]
                     exampleInt exampleInt64
                   = Inr ((l, r), [ResultOp exampleInt, ResultOp exampleInt64, ResultOp c])
           \<and> getValType l = i64 \<and> getValType r = i64
           \<and> l = c \<and> r = exampleInt64 \<and> getOperands c = [exampleInt]
           \<and> getDefiningOp c = Some SignExtendIOp))
   \<and> (isIntOrFloat f64 \<and> \<not> sameDomain i32 f64
     \<and> typePromotion [ResultOp exampleInt, ResultOp exampleDouble] exampleInt exampleDouble
         = Inl IncompatibleTypeCast)"
proof -
  have a: "isIntOrFloat i32" "isIntOrFloat i64" "isIntOrFloat f64"
    by (simp_all add: isIntOrFloat_def)
  show ?thesis
    using a
      typePromotion_shared_type
        [of exampleInt "exampleConst 1 2" "[ResultOp exampleInt, ResultOp (exampleConst 1 2)]"]
      typePromotion_shared_type
        [of exampleInt exampleInt64 "[ResultOp exampleInt, ResultOp exampleInt64]"]
      typePromotion_shared_type
        [of exampleInt exampleDouble "[ResultOp exampleInt, ResultOp exampleDouble]"]
    by (auto simp: sameDomain_def bitWidth_def)
qed

text \<open>
  Claim C2 says that converting an integer-typed value to a floating type always fails
  the assertion and never returns a value of another type. The code does not do so when
  the two bit widths agree: a 32-bit integer value converted to the 32-bit floating type
  is returned as it is, still of the integer type, with no assertion and no operation.
\<close>

theorem typeConversion_same_width_returns_value:
  "typeConversion [ResultOp exampleInt] exampleInt f32 = Inr (exampleInt, [ResultOp exampleInt])
   \<and> getValType exampleInt = i32
   \<and> i32 \<noteq> f32"
  by (simp add: typeConversion_def bindE_def Let_def)

subsection \<open>Address computation\<close>

text \<open>
  Claim C7. For an address \<open>addr\<close>: when it is a pointer to a struct whose body has a
  field number \<open>offset\<close>, \<open>generateGEP\<close> emits the constant zero, the constant \<open>offset\<close>
  and an address computation on \<open>addr\<close> with these two indices, in this order, whose
  result type is the type of field number \<open>offset\<close>; when it is a pointer to anything
  but a struct, \<open>generateGEP\<close> emits the constant \<open>offset\<close> and an address computation
  on \<open>addr\<close> with this one index, whose result type is the pointer type of \<open>addr\<close>.
\<close>

theorem generateGEP_addressing:
  "(getValType addr = PointerType (StructType body)
      \<and> 0 \<le> offset \<and> offset < int (length body) \<longrightarrow>
      generateGEP b addr offset =
        (let zero = OpResult ConstantIntOp (length b) getI32Type [] (IntAttr 0);
             len = OpResult ConstantIntOp (length b + 1) getI32Type [] (IntAttr offset);
             gep = OpResult GEPOp (length b + 2) (body ! nat offset) [addr, zero, len] NoAttr
         in Inr (gep, b @ [ResultOp zero, ResultOp len, ResultOp gep])))
   \<and> (getValType addr = PointerType t \<and> \<not> isStructType t \<longrightarrow>
      generateGEP b addr offset =
        (let len = OpResult ConstantIntOp (length b) getI32Type [] (IntAttr offset);
             gep = OpResult GEPOp (length b + 1) (PointerType t) [addr, len] NoAttr
         in Inr (gep, b @ [ResultOp len, ResultOp gep])))"
proof (intro conjI impI)
  assume "getValType addr = PointerType (StructType body)
      \<and> 0 \<le> offset \<and> offset < int (length body)"
  then show "generateGEP b addr offset =
        (let zero = OpResult ConstantIntOp (length b) getI32Type [] (IntAttr 0);
             len = OpResult ConstantIntOp (length b + 1) getI32Type [] (IntAttr offset);
             gep = OpResult GEPOp (length b + 2) (body ! nat offset) [addr, zero, len] NoAttr
         in Inr (gep, b @ [ResultOp zero, ResultOp len, ResultOp gep]))"
    by (simp add: generateGEP_def generateZero_def getI32Type_def bindE_def create_def Let_def)
next
  assume a: "getValType addr = PointerType t \<and> \<not> isStructType t"
  then have ns: "isStructPointer addr = False" by simp
  have el: "getElementType addr = Inr t" using a by simp
  have ty: "(case t of StructType body \<Rightarrow> getFieldType body offset
                    | _ \<Rightarrow> Inr (getValType addr)) = Inr (PointerType t)"
    using a by (cases t) simp_all
  show "generateGEP b addr offset =
        (let len = OpResult ConstantIntOp (length b) getI32Type [] (IntAttr offset);
             gep = OpResult GEPOp (length b + 1) (PointerType t) [addr, len] NoAttr
         in Inr (gep, b @ [ResultOp len, ResultOp gep]))"
    unfolding generateGEP_def ns el
    by (simp add: ty getI32Type_def bindE_def create_def Let_def
        del: isStructPointer.simps getElementType.simps)
qed

text \<open>
  Claim C7 on scenario A of the spec, a pointer to a struct of two 32-bit integers with
  offset 1, and on a pointer to a 32-bit integer with offset 0.
\<close>

theorem generateGEP_addressing_witness:
  "generateGEP [ResultOp exampleStructPointer] exampleStructPointer 1
    = Inr (OpResult GEPOp 3 i32
             [exampleStructPointer, exampleConst 1 0, exampleConst 2 1] NoAttr,
           [ResultOp exampleStructPointer,
            ResultOp (exampleConst 1 0),
            ResultOp (exampleConst 2 1),
            ResultOp (OpResult GEPOp 3 i32
              [exampleStructPointer, exampleConst 1 0, exampleConst 2 1] NoAttr)])
   \<and> generateGEP [ResultOp exampleIntPointer] exampleIntPointer 0
    = Inr (exampleGEP,
           [ResultOp exampleIntPointer, ResultOp (exampleConst 1 0), ResultOp exampleGEP])"
  using
    generateGEP_addressing
      [of exampleStructPointer "[i32, i32]" 1 "[ResultOp exampleStructPointer]"]
    generateGEP_addressing
      [of exampleIntPointer "[]" 0 "[ResultOp exampleIntPointer]" i32]
  by (simp add: getI32Type_def Let_def)

subsection \<open>Load and store\<close>

text \<open>
  On a value that an operation defines, \<open>generateLoad\<close> and \<open>generateStore\<close> do what
  the spec says. When the operation is not an address computation, they first run
  \<open>generateGEP\<close> on \<open>addr\<close> and \<open>offset\<close>: if that gives the address \<open>a\<close>, the load or
  the store is performed on \<open>a\<close> after the operations of the address computation, and if
  that fails, they fail the same way. When the operation is an address computation, a
  nonzero offset fails the assertion, and with offset zero the load or the store is
  performed on \<open>addr\<close> itself, nothing else being emitted.
\<close>

lemma generateLoad_generateStore_on_operation_results:
  "(getDefiningOp addr = Some name \<and> name \<noteq> GEPOp
      \<and> generateGEP b addr offset = Inr (a, b') \<longrightarrow>
        generateLoad b addr offset = createLoad b' a
      \<and> generateStore b addr val offset = Inr (b' @ [StoreOp val a]))
   \<and> (getDefiningOp addr = Some name \<and> name \<noteq> GEPOp
      \<and> generateGEP b addr offset = Inl e \<longrightarrow>
        generateLoad b addr offset = Inl e
      \<and> generateStore b addr val offset = Inl e)
   \<and> (getDefiningOp addr = Some GEPOp \<and> offset \<noteq> 0 \<longrightarrow>
        generateLoad b addr offset = Inl OffsetOfGEP
      \<and> generateStore b addr val offset = Inl OffsetOfGEP)
   \<and> (getDefiningOp addr = Some GEPOp \<and> offset = 0 \<longrightarrow>
        generateLoad b addr offset = createLoad b addr
      \<and> generateStore b addr val offset = Inr (b @ [StoreOp val addr]))"
  by (simp add: generateLoad_def generateStore_def bindE_def)

text \<open>
  The four cases at concrete inputs: a pointer that comes from an allocation, with
  offset zero; a pointer to a struct with an offset outside the struct; the computed
  address with offset one and with offset zero.
\<close>

lemma generateLoad_generateStore_on_operation_results_examples:
  "generateLoad [ResultOp exampleIntPointer] exampleIntPointer 0
      = Inr (OpResult LoadOp 3 i32 [exampleGEP] NoAttr,
             [ResultOp exampleIntPointer, ResultOp (exampleConst 1 0), ResultOp exampleGEP,
              ResultOp (OpResult LoadOp 3 i32 [exampleGEP] NoAttr)])
   \<and> generateStore [ResultOp exampleIntPointer] exampleIntPointer exampleInt 0
      = Inr [ResultOp exampleIntPointer, ResultOp (exampleConst 1 0), ResultOp exampleGEP,
             StoreOp exampleInt exampleGEP]
   \<and> generateLoad [ResultOp exampleStructPointer] exampleStructPointer 5 = Inl BadFieldIndex
   \<and> generateStore [ResultOp exampleStructPointer] exampleStructPointer exampleInt 5
      = Inl BadFieldIndex
   \<and> generateLoad [ResultOp exampleGEP] exampleGEP 1 = Inl OffsetOfGEP
   \<and> generateStore [ResultOp exampleGEP] exampleGEP exampleInt 1 = Inl OffsetOfGEP
   \<and> generateLoad [ResultOp exampleGEP] exampleGEP 0
      = Inr (OpResult LoadOp 1 i32 [exampleGEP] NoAttr,
             [ResultOp exampleGEP, ResultOp (OpResult LoadOp 1 i32 [exampleGEP] NoAttr)])
   \<and> generateStore [ResultOp exampleGEP] exampleGEP exampleInt 0
      = Inr [ResultOp exampleGEP, StoreOp exampleInt exampleGEP]"
proof -
  have g1: "generateGEP [ResultOp exampleIntPointer] exampleIntPointer 0
         = Inr (exampleGEP,
                [ResultOp exampleIntPointer, ResultOp (exampleConst 1 0), ResultOp exampleGEP])"
    by (simp add: generateGEP_def getI32Type_def bindE_def create_def Let_def)
  have g2: "generateGEP [ResultOp exampleStructPointer] exampleStructPointer 5 = Inl BadFieldIndex"
    by (simp add: generateGEP_def generateZero_def getI32Type_def bindE_def create_def Let_def)
  show ?thesis
    using g1 g2
      generateLoad_generateStore_on_operation_results
        [of exampleIntPointer AllocaOp "[ResultOp exampleIntPointer]" 0 exampleGEP
            "[ResultOp exampleIntPointer, ResultOp (exampleConst 1 0), ResultOp exampleGEP]"
            exampleInt]
      generateLoad_generateStore_on_operation_results
        [of exampleStructPointer AllocaOp "[ResultOp exampleStructPointer]" 5 _ _ exampleInt
            BadFieldIndex]
      generateLoad_generateStore_on_operation_results
        [of exampleGEP _ "[ResultOp exampleGEP]" 1 _ _ exampleInt]
      generateLoad_generateStore_on_operation_results
        [of exampleGEP _ "[ResultOp exampleGEP]" 0 _ _ exampleInt]
    by (simp add: createLoad_def create_def Let_def)
qed

text \<open>
  Claim C8 says that for every address that is not the result of an address
  computation, \<open>generateLoad\<close> and \<open>generateStore\<close> first compute the effective address
  with \<open>generateGEP\<close>. A function parameter of pointer type is such an address, and
  \<open>generateGEP\<close> computes an address from it; but no operation defines it, and
  \<open>generateLoad\<close> and \<open>generateStore\<close> hand its null defining operation to \<open>isa\<close>, which
  asserts: no address is computed and nothing is loaded or stored.
\<close>

theorem generateLoad_generateStore_block_argument:
  "generateLoad b (BlockArgument i ty) offset = Inl IsaOnNullPointer
   \<and> generateStore b (BlockArgument i ty) val offset = Inl IsaOnNullPointer
   \<and> isPointer exampleArgument
   \<and> getDefiningOp exampleArgument = None
   \<and> generateGEP [] exampleArgument 0
      = Inr (OpResult GEPOp 1 (PointerType i32) [exampleArgument, exampleConst 0 0] NoAttr,
             [ResultOp (exampleConst 0 0),
              ResultOp (OpResult GEPOp 1 (PointerType i32)
                 [exampleArgument, exampleConst 0 0] NoAttr)])
   \<and> generateLoad [] exampleArgument 0 = Inl IsaOnNullPointer
   \<and> generateStore [] exampleArgument exampleInt 0 = Inl IsaOnNullPointer"
  by (simp add: generateLoad_def generateStore_def generateGEP_def getI32Type_def
      bindE_def create_def Let_def)

subsection \<open>generateAutoLoad\<close>

text \<open>
  Claim C9. \<open>generateAutoLoad\<close> returns \<open>addr\<close> as it is, with no operation emitted,
  when \<open>addr\<close> is not a pointer, whatever the expected type and the offset; and also
  when \<open>addr\<close> is a pointer and the expected type is a pointer type, whatever the offset.
\<close>

theorem generateAutoLoad_returns_addr:
  "(\<not> isPointer addr \<longrightarrow> generateAutoLoad b addr ty offset = Inr (addr, b))
   \<and> (isPointer addr \<and> ty = Some (PointerType t) \<longrightarrow>
        generateAutoLoad b addr ty offset = Inr (addr, b))"
  by (simp add: generateAutoLoad_def)

text \<open>
  Claim C9 on a 32-bit integer constant, and on a pointer with an expected pointer type
  and offset 3 (scenario D of the spec).
\<close>

theorem generateAutoLoad_returns_addr_witness:
  "\<not> isPointer exampleInt
   \<and> generateAutoLoad [ResultOp exampleInt] exampleInt (Some i32) 3
       = Inr (exampleInt, [ResultOp exampleInt])
   \<and> isPointer exampleIntPointer
   \<and> generateAutoLoad [ResultOp exampleIntPointer] exampleIntPointer (Some (PointerType i32)) 3
       = Inr (exampleIntPointer, [ResultOp exampleIntPointer])"
  using
    generateAutoLoad_returns_addr [of exampleInt "[ResultOp exampleInt]" "Some i32" 3]
    generateAutoLoad_returns_addr
      [of exampleIntPointer "[ResultOp exampleIntPointer]" "Some (PointerType i32)" 3 i32]
  by simp

section \<open>Properties of the type bridge\<close>

subsection \<open>Looking a type up by name\<close>

lemma fold_foundTemplateClass:
  assumes h: "\<And>qn. hasName p qn = (qn = name)"
  shows "(foundTemplateClass (fold (runMatchers p) ast f) = None) =
     (foundTemplateClass f = None \<and> \<not> list_ex (isTemplateNamed name) ast)"
proof (induction ast arbitrary: f)
  case Nil
  then show ?case by simp
next
  case (Cons d ds)
  show ?case by (cases d) (auto simp: Cons.IH h split: option.splits)
qed

lemma fold_foundClass:
  assumes h: "\<And>qn. hasName p qn = (qn = name)"
  shows "(foundClass (fold (runMatchers p) ast f) = None) =
     (foundClass f = None \<and> \<not> list_ex (isDefinedClassNamed name) ast)"
proof (induction ast arbitrary: f)
  case Nil
  then show ?case by simp
next
  case (Cons d ds)
  show ?case by (cases d) (auto simp: Cons.IH h split: option.splits)
qed

lemma fold_foundEnum:
  assumes h: "\<And>qn. hasName p qn = (qn = name)"
  shows "(foundEnum (fold (runMatchers p) ast f) = None) =
     (foundEnum f = None \<and> \<not> list_ex (isEnumNamed name) ast)"
proof (induction ast arbitrary: f)
  case Nil
  then show ?case by simp
next
  case (Cons d ds)
  show ?case by (cases d) (auto simp: Cons.IH h split: option.splits)
qed

lemma kind_getType: "kind (getType ast name) = expectedKind ast name"
proof -
  let ?f = "matchAST (''::'' @ name) ast"
  have h: "\<And>qn. hasName (''::'' @ name) qn = (qn = name)"
    by (auto simp: hasName_def)
  have t: "(foundTemplateClass ?f = None) = (\<not> list_ex (isTemplateNamed name) ast)"
    by (simp only: matchAST_def fold_foundTemplateClass [OF h]) simp
  have c: "(foundClass ?f = None) = (\<not> list_ex (isDefinedClassNamed name) ast)"
    by (simp only: matchAST_def fold_foundClass [OF h]) simp
  have e: "(foundEnum ?f = None) = (\<not> list_ex (isEnumNamed name) ast)"
    by (simp only: matchAST_def fold_foundEnum [OF h]) simp
  show ?thesis
    using t c e
    by (auto simp: getType_def expectedKind_def CXXType_decl_def CXXType_default_def Let_def
        split: option.splits)
qed

lemma expectedKind_set: "set ast' = set ast \<Longrightarrow> expectedKind ast' name = expectedKind ast name"
  by (simp add: expectedKind_def list_ex_iff)

text \<open>
  Claim C4. The kind of the handle that \<open>getType\<close> returns is TemplateClass when a
  class template of that name is declared, else Class when a class of that name with a
  definition is declared, else Enum when an enum of that name is declared, else
  Invalid. It is the same for two ASTs that hold the same declarations in different
  orders. \<open>getType\<close> has no failing branch, and its Invalid result is the default handle.
\<close>

theorem getType_priority:
  "kind (getType ast name) =
     (if list_ex (isTemplateNamed name) ast then TemplateClass
      else if list_ex (isDefinedClassNamed name) ast then Class
      else if list_ex (isEnumNamed name) ast then Enum
      else Invalid)
   \<and> (set ast' = set ast \<longrightarrow> kind (getType ast' name) = kind (getType ast name))
   \<and> (kind (getType ast name) = Invalid \<longrightarrow> getType ast name = CXXType_default)"
proof -
  have "kind (getType ast name) = Invalid \<Longrightarrow> getType ast name = CXXType_default"
    by (auto simp: getType_def CXXType_decl_def Let_def split: option.splits)
  then show ?thesis
    using kind_getType [of ast name] kind_getType [of ast' name]
      expectedKind_set [of ast' ast name]
    by (auto simp: expectedKind_def)
qed

text \<open>
  Claim C4 on a header that declares a class template \<open>Foo\<close> (the template and its
  templated class) and an enum \<open>Color\<close>, read in the two orders, and on a name that is
  not declared.
\<close>

theorem getType_priority_witness:
  "set exampleASTReversed = set exampleAST
   \<and> kind (getType exampleAST ''Foo'') = TemplateClass
   \<and> kind (getType exampleASTReversed ''Foo'') = TemplateClass
   \<and> kind (getType exampleAST ''Color'') = Enum
   \<and> kind (getType exampleAST ''Bar'') = Invalid
   \<and> getType exampleAST ''Bar'' = CXXType_default"
proof -
  have st: "set exampleASTReversed = set exampleAST"
    by auto
  show ?thesis
    using st
      getType_priority [of exampleAST "''Foo''" exampleASTReversed]
      getType_priority [of exampleAST "''Color''"]
      getType_priority [of exampleAST "''Bar''"]
    by simp
qed

subsection \<open>Instantiating a class template\<close>

lemma findFrom_Some:
  "findFrom i ds t args = Some d \<Longrightarrow>
     \<exists>j < length ds. d = i + j \<and> specTemplate (ds ! j) = t \<and> specArgs (ds ! j) = args"
proof (induction ds arbitrary: i)
  case Nil
  then show ?case by simp
next
  case (Cons x xs)
  show ?case
  proof (cases "specTemplate x = t \<and> specArgs x = args")
    case True
    then have "d = i" using Cons.prems by simp
    then show ?thesis using True by (intro exI [of _ 0]) simp
  next
    case False
    then have "findFrom (Suc i) xs t args = Some d" using Cons.prems by auto
    from Cons.IH [OF this] obtain j where
      "j < length xs" "d = Suc i + j" "specTemplate (xs ! j) = t" "specArgs (xs ! j) = args"
      by blast
    then show ?thesis by (intro exI [of _ "Suc j"]) simp
  qed
qed

lemma findFrom_update:
  "k < length ds \<Longrightarrow> specTemplate x = specTemplate (ds ! k) \<Longrightarrow> specArgs x = specArgs (ds ! k) \<Longrightarrow>
     findFrom i (ds[k := x]) t args = findFrom i ds t args"
proof (induction ds arbitrary: i k)
  case Nil
  then show ?case by simp
next
  case (Cons y ys)
  then show ?case by (cases k) auto
qed

lemma findFrom_append_new:
  "findFrom i ds t args = None \<Longrightarrow> specTemplate x = t \<Longrightarrow> specArgs x = args \<Longrightarrow>
     findFrom i (ds @ [x]) t args = Some (i + length ds)"
  by (induction ds arbitrary: i) (auto split: if_splits)

lemma findSpecialization_Some:
  "findSpecialization s t args = Some d \<Longrightarrow>
     d < length (specializations s) \<and> specTemplate (specializations s ! d) = t
       \<and> specArgs (specializations s ! d) = args"
  using findFrom_Some [of 0 "specializations s" t args d] by (simp add: findSpecialization_def)

text \<open>
  A call on a session in which the specialization is in the set, is defined, and has
  its attributes when it is undeclared: the definition is returned and the session stays.
\<close>

lemma instantiate_cached:
  assumes k: "kind h = TemplateClass" and dh: "decl h = Some t"
    and f: "findSpecialization s t args = Some d"
    and df: "specDefinition (specializations s ! d) = Some def"
    and at: "specKind (specializations s ! d) = TSK_Undeclared \<longrightarrow> specAttrs (specializations s ! d)"
  shows "instantiateClassTemplate s h args = Inr (CXXType_decl SpecializedTemplateClass def, s)"
proof -
  have lt: "d < length (specializations s)" using findSpecialization_Some [OF f] by simp
  have same: "InstantiateAttrsForDecl s d = s"
    if "specKind (specializations s ! d) = TSK_Undeclared"
  proof -
    have "(specializations s ! d)\<lparr>specAttrs := True\<rparr> = specializations s ! d"
      using at that by simp
    then show ?thesis by (simp add: InstantiateAttrsForDecl_def)
  qed
  show ?thesis
    using k dh f df same by (simp add: instantiateClassTemplate_def)
qed

text \<open>
  Claim C3. For a handle of kind TemplateClass and an argument list: when a call of
  \<open>instantiateClassTemplate\<close> returns a handle and a session, a second call with the
  same handle and argument list on that session returns the same handle, so the same
  specialization declaration, and leaves the session as it is: no declaration is
  created.
\<close>

theorem instantiateClassTemplate_idempotent:
  assumes k: "kind h = TemplateClass"
    and r: "instantiateClassTemplate s h args = Inr (h1, s1)"
  shows "instantiateClassTemplate s1 h args = Inr (h1, s1)"
proof -
  obtain t where dh: "decl h = Some t"
    using k r by (cases "decl h") (auto simp: instantiateClassTemplate_def)
  define p where "p = (case findSpecialization s t args of
                      Some d \<Rightarrow> (d, s)
                    | None \<Rightarrow> AddSpecialization s t args)"
  obtain d sa where p: "p = (d, sa)" by (cases p)
  have lt: "d < length (specializations sa)"
    and key: "specTemplate (specializations sa ! d) = t" "specArgs (specializations sa ! d) = args"
    and fa: "findSpecialization sa t args = Some d"
  proof -
    show "d < length (specializations sa)"
      using p findSpecialization_Some [of s t args]
      by (auto simp: p_def AddSpecialization_def split: option.splits)
    show "specTemplate (specializations sa ! d) = t"
      using p findSpecialization_Some [of s t args]
      by (auto simp: p_def AddSpecialization_def split: option.splits)
    show "specArgs (specializations sa ! d) = args"
      using p findSpecialization_Some [of s t args]
      by (auto simp: p_def AddSpecialization_def split: option.splits)
    show "findSpecialization sa t args = Some d"
    proof (cases "findSpecialization s t args")
      case None
      then have "findFrom 0 (specializations s) t args = None"
        by (simp add: findSpecialization_def)
      from findFrom_append_new [OF this, of "\<lparr>specTemplate = t, specArgs = args, specKind = TSK_Undeclared,
            specDefinition = None, specAttrs = False\<rparr>"]
      have fnd: "findFrom 0 (specializations s @ [\<lparr>specTemplate = t, specArgs = args,
            specKind = TSK_Undeclared, specDefinition = None, specAttrs = False\<rparr>]) t args
          = Some (length (specializations s))"
        by simp
      have "d = length (specializations s)"
        and "specializations sa = specializations s @ [\<lparr>specTemplate = t, specArgs = args,
            specKind = TSK_Undeclared, specDefinition = None, specAttrs = False\<rparr>]"
        using p None by (auto simp: p_def AddSpecialization_def)
      then show ?thesis using fnd by (simp add: findSpecialization_def)
    next
      case (Some a)
      then show ?thesis using p by (simp add: p_def)
    qed
  qed
  define sb where "sb = (if specKind (specializations sa ! d) = TSK_Undeclared
                       then InstantiateAttrsForDecl sa d else sa)"
  have ltb: "d < length (specializations sb)"
    using lt by (simp add: sb_def InstantiateAttrsForDecl_def)
  have keyb: "specTemplate (specializations sb ! d) = t" "specArgs (specializations sb ! d) = args"
    using lt key by (auto simp: sb_def InstantiateAttrsForDecl_def)
  have fb: "findSpecialization sb t args = Some d"
    using fa lt findFrom_update [of d "specializations sa" "(specializations sa ! d)\<lparr>specAttrs := True\<rparr>" 0 t args]
    by (auto simp: sb_def InstantiateAttrsForDecl_def findSpecialization_def)
  have atb: "specKind (specializations sb ! d) = TSK_Undeclared \<longrightarrow> specAttrs (specializations sb ! d)"
    using lt by (auto simp: sb_def InstantiateAttrsForDecl_def)
  have unfold: "instantiateClassTemplate s h args =
      (case specDefinition (specializations sb ! d) of
         Some Def \<Rightarrow> Inr (CXXType_decl SpecializedTemplateClass Def, sb)
       | None \<Rightarrow>
           if \<not> endOfFileValid sb then Inl InvalidSourceLocation
           else
             (let s3 = InstantiateClassTemplateSpecialization sb d TSK_ExplicitInstantiationDefinition
              in case specDefinition (specializations s3 ! d) of
                   Some Def \<Rightarrow> Inr (CXXType_decl SpecializedTemplateClass Def, s3)
                 | None \<Rightarrow> Inl NoDefinition))"
    apply (simp only: instantiateClassTemplate_def k dh option.case simp_thms if_False)
    apply (simp only: p_def [symmetric])
    apply (simp only: p prod.case Let_def sb_def)
    done
  show ?thesis
  proof (cases "specDefinition (specializations sb ! d)")
    case (Some def)
    then have "h1 = CXXType_decl SpecializedTemplateClass def" "s1 = sb"
      using r unfold by auto
    then show ?thesis using instantiate_cached [OF k dh fb Some atb] by simp
  next
    case None
    define sc where "sc = InstantiateClassTemplateSpecialization sb d TSK_ExplicitInstantiationDefinition"
    from None r unfold obtain def where
      dc: "specDefinition (specializations sc ! d) = Some def"
      and res: "h1 = CXXType_decl SpecializedTemplateClass def" "s1 = sc"
      by (auto simp: sc_def Let_def split: if_splits option.splits)
    have inst: "instantiable sb t args"
    proof (rule ccontr)
      assume "\<not> instantiable sb t args"
      then have "sc = sb"
        using keyb by (simp add: sc_def InstantiateClassTemplateSpecialization_def)
      then show False using dc None by simp
    qed
    have sc: "specializations sc = (specializations sb)
          [d := (specializations sb ! d)\<lparr>specKind := TSK_ExplicitInstantiationDefinition,
                                         specDefinition := Some d\<rparr>]"
      using inst keyb by (simp add: sc_def InstantiateClassTemplateSpecialization_def)
    have fc: "findSpecialization sc t args = Some d"
      using fb ltb sc
        findFrom_update [of d "specializations sb"
          "(specializations sb ! d)\<lparr>specKind := TSK_ExplicitInstantiationDefinition,
                                         specDefinition := Some d\<rparr>" 0 t args]
      by (simp add: findSpecialization_def)
    have kc: "specKind (specializations sc ! d) = TSK_Undeclared \<longrightarrow> specAttrs (specializations sc ! d)"
      using sc ltb by simp
    show ?thesis using instantiate_cached [OF k dh fc dc kc] res by simp
  qed
qed

text \<open>
  Claim C3 on scenario B of the spec: a template instantiated twice with the builtin
  type \<open>int\<close>, in a session that has no specialization yet.
\<close>

theorem instantiateClassTemplate_idempotent_witness:
  "kind (CXXType_decl TemplateClass 7) = TemplateClass
   \<and> instantiateClassTemplate exampleSession
        (CXXType_decl TemplateClass 7) [TypeArgument IntTy]
      = Inr (CXXType_decl SpecializedTemplateClass 0, exampleSessionAfter)
   \<and> instantiateClassTemplate exampleSessionAfter
        (CXXType_decl TemplateClass 7) [TypeArgument IntTy]
      = Inr (CXXType_decl SpecializedTemplateClass 0, exampleSessionAfter)"
proof -
  have k: "kind (CXXType_decl TemplateClass 7) = TemplateClass"
    by (simp add: CXXType_decl_def)
  have r: "instantiateClassTemplate exampleSession
        (CXXType_decl TemplateClass 7) [TypeArgument IntTy]
      = Inr (CXXType_decl SpecializedTemplateClass 0, exampleSessionAfter)"
    by (simp add: instantiateClassTemplate_def CXXType_decl_def findSpecialization_def
        AddSpecialization_def InstantiateAttrsForDecl_def
        InstantiateClassTemplateSpecialization_def Let_def)
  show ?thesis
    using k r instantiateClassTemplate_idempotent [OF k r] by simp
qed

text \<open>
  Claim C10. For a handle whose kind is not TemplateClass, \<open>instantiateClassTemplate\<close>
  returns the default handle, which is Invalid, and the session as it was; it is not an
  error.
\<close>

theorem instantiateClassTemplate_not_a_template:
  "kind h \<noteq> TemplateClass \<longrightarrow>
     instantiateClassTemplate s h args = Inr (CXXType_default, s)
     \<and> kind CXXType_default = Invalid"
  by (simp add: instantiateClassTemplate_def CXXType_default_def)

text \<open>Claim C10 on a Class handle, an Enum handle and the Invalid handle.\<close>

theorem instantiateClassTemplate_not_a_template_witness:
  "kind (CXXType_decl Class 3) \<noteq> TemplateClass
   \<and> instantiateClassTemplate exampleSession (CXXType_decl Class 3) [TypeArgument IntTy]
      = Inr (CXXType_default, exampleSession)
   \<and> instantiateClassTemplate exampleSessionAfter (CXXType_decl Enum 4) []
      = Inr (CXXType_default, exampleSessionAfter)
   \<and> instantiateClassTemplate exampleSession CXXType_default []
      = Inr (CXXType_default, exampleSession)
   \<and> kind CXXType_default = Invalid"
  using
    instantiateClassTemplate_not_a_template
      [of "CXXType_decl Class 3" exampleSession "[TypeArgument IntTy]"]
    instantiateClassTemplate_not_a_template
      [of "CXXType_decl Enum 4" exampleSessionAfter "[]"]
    instantiateClassTemplate_not_a_template
      [of CXXType_default exampleSession "[]"]
  by (simp add: CXXType_decl_def CXXType_default_def)

subsection \<open>The size of a type\<close>

lemma getType_size_unset: "Width (sizeAndAlign (getType ast name)) = 0"
  by (simp add: getType_def CXXType_decl_def CXXType_default_def Let_def split: option.splits)

text \<open>
  Claim C5. \<open>getTypeSize\<close> on a handle of kind TemplateClass whose size is unset fails
  an assertion and returns no size: the handle passes the assertion on the kind,
  \<open>getQualType\<close> gives the null type for it, and the layout facility of the host
  compiler asserts on the null type. The size of a TemplateClass handle is unset when
  the handle is made, by a constructor or by \<open>getType\<close>, and this failing query is
  the only place that would set it.
\<close>

theorem getTypeSize_TemplateClass_rejected:
  "(kind t = TemplateClass \<and> Width (sizeAndAlign t) = 0 \<longrightarrow>
      getTypeSize layout t = Inl NullTypePointer)
   \<and> getTypeSize layout (CXXType_decl TemplateClass d) = Inl NullTypePointer
   \<and> (kind (getType ast name) = TemplateClass \<longrightarrow>
      getTypeSize layout (getType ast name) = Inl NullTypePointer)"
proof -
  have r: "getTypeSize layout h = Inl NullTypePointer"
    if "kind h = TemplateClass" and "Width (sizeAndAlign h) = 0" for h
    using that by (simp add: getTypeSize_def getQualType_def bindE_def)
  show ?thesis
    using r [of t] r [of "CXXType_decl TemplateClass d"] r [of "getType ast name"]
      getType_size_unset [of ast name]
    by (simp add: CXXType_decl_def)
qed

text \<open>
  Claim C5 on the handle of the class template \<open>Foo\<close> of the example header, with a
  platform that lays every type out on 32 bits.
\<close>

theorem getTypeSize_TemplateClass_rejected_witness:
  "kind (getType exampleAST ''Foo'') = TemplateClass
   \<and> Width (sizeAndAlign (getType exampleAST ''Foo'')) = 0
   \<and> getTypeSize (\<lambda>ty. \<lparr>Width = 32, Align = 32\<rparr>) (getType exampleAST ''Foo'')
       = Inl NullTypePointer
   \<and> getTypeSize (\<lambda>ty. \<lparr>Width = 32, Align = 32\<rparr>) (CXXType_decl TemplateClass 0)
       = Inl NullTypePointer"
proof -
  have k: "kind (getType exampleAST ''Foo'') = TemplateClass"
    by (simp add: getType_def matchAST_def hasName_def CXXType_decl_def Let_def)
  have w: "Width (sizeAndAlign (getType exampleAST ''Foo'')) = 0"
    by (simp add: getType_def matchAST_def hasName_def CXXType_decl_def Let_def)
  show ?thesis
    using k w
      getTypeSize_TemplateClass_rejected
        [of "getType exampleAST ''Foo''" "\<lambda>ty. \<lparr>Width = 32, Align = 32\<rparr>" 0 exampleAST "''Foo''"]
    by simp
qed

subsection \<open>Building a function parameter\<close>

text \<open>
  Claim C6 says that each call of \<open>createFunctionArgument\<close> appends a parameter, so that
  after two calls the function has both parameters in call order. The code sets the
  parameter list to the one new parameter: after the calls for \<open>a\<close> and \<open>b\<close> on a
  function of two \<open>int\<close> arguments, the list holds \<open>b\<close> alone.
\<close>

theorem createFunctionArgument_twice_keeps_last:
  "bindE (createFunctionArgument 1 ''a'' exampleIntHandle
            \<lparr>funcId = 0, funcName = ''f'', funcArgTypes = [IntTy, IntTy],
             funcReturnType = IntTy, params = []\<rparr>) (\<lambda>(p1, f1, n1).
     bindE (createFunctionArgument n1 ''b'' exampleIntHandle f1) (\<lambda>(p2, f2, n2).
       Inr (params f2)))
   = Inr [\<lparr>parmId = 2, parmName = ''b'', parmType = IntTy, parmFunction = 0\<rparr>]"
  by (simp add: createFunctionArgument_def getQualType_def setParams_def bindE_def Let_def)

end
